theory Spec2Isabelle
  imports Main
begin

section \<open>Python values, truthiness and exceptions\<close>

text \<open>
  The handle returned by a connector, the run-state and the arguments handed through to
  the connector are arbitrary Python objects. What \<open>pyinfra/api/host.py\<close> does with
  them is test their truth value (\<open>if not self.state\<close>, \<open>if not self.connection\<close>,
  \<open>if not connection\<close>) and pass them on. \<open>PObj n\<close> is an opaque object (a run-state,
  an SSH client): an instance without \<open>__bool__\<close> or \<open>__len__\<close>, hence true.
\<close>

datatype pyval = PNone | PBool bool | PInt int | PStr string | PObj nat

fun truthy :: "pyval \<Rightarrow> bool" where
  "truthy PNone = False"
| "truthy (PBool b) = b"
| "truthy (PInt i) = (i \<noteq> 0)"
| "truthy (PStr s) = (s \<noteq> [])"
| "truthy (PObj n) = True"

text \<open>
  The exceptions of the module. \<open>ConnectError\<close> carries the \<open>args\<close> tuple of the
  exception (pyinfra's connectors raise it with the failure reason, a text, as first
  argument); \<open>OtherError\<close> is any other exception a collaborator raises.
\<close>

datatype exc =
    TypeError string
  | AttributeError string
  | IndexError string
  | PyinfraError string
  | ConnectError "string list"
  | OtherError string

section \<open>The Host and what surrounds it\<close>

text \<open>
  The attributes of a \<open>Host\<close>. \<open>connection\<close> and \<open>state\<close> are class attributes with
  default \<open>None\<close>. \<open>self.executor\<close> is kept beside the record (the argument \<open>ex\<close> of
  the methods below), since its operations take the host as an argument;
  \<open>self.fact\<close> is the facade \<open>HostFacts(self)\<close>, modelled by the functions
  \<open>HostFacts_*\<close> applied to \<open>Some h\<close>.
\<close>

record host =
  name :: string
  inventory :: pyval
  groups :: "string list"
  data :: pyval
  connector_data :: "(string \<times> pyval) list"
  connection :: pyval
  state :: pyval

text \<open>
  Every call on the connector (\<open>self.executor\<close>) and on \<open>get_host_fact\<close>,
  \<open>create_host_fact\<close> and \<open>delete_host_fact\<close> is recorded with the arguments it was given.
  The registry test \<open>is_fact\<close> is a pure test of the identifier and is not recorded.
\<close>

datatype call =
    Connect pyval host
  | Disconnect pyval host
  | RunShellCommand pyval host "pyval list" "(string \<times> pyval) list"
  | PutFile pyval host "pyval list" "(string \<times> pyval) list"
  | GetFile pyval host "pyval list" "(string \<times> pyval) list"
  | GetHostFact pyval host string
  | CreateHostFact pyval host string pyval pyval
  | DeleteHostFact pyval host string pyval

datatype level = ERROR | INFO

text \<open>
  The state outside the host: the lines handed to \<open>pyinfra.logger\<close> by this module, the
  calls made on collaborators, and the world \<open>'w\<close> the collaborators act on (network,
  remote machines, fact cache). Python hands the host to a collaborator by reference. The
  model covers the collaborators that read the host and act on the world: what a
  collaborator would write into the host it is handed is outside the model, and the
  theorems say what the methods of \<open>Host\<close> and \<open>HostFacts\<close> do themselves.
\<close>

record 'w sys =
  logged :: "(level \<times> string) list"
  calls :: "call list"
  world :: "'w"

type_synonym 'w action = "'w \<Rightarrow> (exc + pyval) \<times> 'w"

text \<open>
  A connector module (an entry of \<open>EXECUTION_CONNECTORS\<close>). \<open>disconnect\<close> is optional:
  \<open>getattr(self.executor, 'disconnect', None)\<close> is \<open>None\<close> when the connector has none.
  The three dispatch operations take the caller's positional and keyword arguments.
\<close>

record 'w connector =
  exec_connect :: "pyval \<Rightarrow> host \<Rightarrow> 'w action"
  exec_disconnect :: "(pyval \<Rightarrow> host \<Rightarrow> 'w action) option"
  exec_run_shell_command :: "pyval \<Rightarrow> host \<Rightarrow> pyval list \<Rightarrow> (string \<times> pyval) list \<Rightarrow> 'w action"
  exec_put_file :: "pyval \<Rightarrow> host \<Rightarrow> pyval list \<Rightarrow> (string \<times> pyval) list \<Rightarrow> 'w action"
  exec_get_file :: "pyval \<Rightarrow> host \<Rightarrow> pyval list \<Rightarrow> (string \<times> pyval) list \<Rightarrow> 'w action"

text \<open>
  The functions imported from \<open>pyinfra.api.facts\<close>, whose code is not part of this module:
  they are parameters of the model.
\<close>

record 'w facts =
  is_fact :: "string \<Rightarrow> bool"
  get_host_fact :: "pyval \<Rightarrow> host \<Rightarrow> string \<Rightarrow> 'w action"
  create_host_fact :: "pyval \<Rightarrow> host \<Rightarrow> string \<Rightarrow> pyval \<Rightarrow> pyval \<Rightarrow> 'w action"
  delete_host_fact :: "pyval \<Rightarrow> host \<Rightarrow> string \<Rightarrow> pyval \<Rightarrow> 'w action"

definition invoke :: "call \<Rightarrow> 'w action \<Rightarrow> 'w sys \<Rightarrow> (exc + pyval) \<times> 'w sys" where
  "invoke c f s =
     (case f (world s) of (r, w') \<Rightarrow> (r, s\<lparr>calls := calls s @ [c], world := w'\<rparr>))"

definition emit :: "level \<Rightarrow> string \<Rightarrow> 'w sys \<Rightarrow> 'w sys" where
  "emit l msg s = s\<lparr>logged := logged s @ [(l, msg)]\<rparr>"

section \<open>Styling of log lines\<close>

text \<open>
  \<open>click.style(text, fg, bold=...)\<close> of the click library, for the options this module
  uses: the SGR code of the colour, the code of the weight, the text, and the reset code
  (\<open>reset\<close> is left at its default).
\<close>

datatype colour = Red | Green

fun sgr :: "string \<Rightarrow> string" where
  "sgr code = CHR 0x1B # ''['' @ code @ ''m''"

fun colour_code :: "colour \<Rightarrow> string" where
  "colour_code Red = ''31''"
| "colour_code Green = ''32''"

definition click_style :: "string \<Rightarrow> colour option \<Rightarrow> bool option \<Rightarrow> string" where
  "click_style text fg bold =
     (case fg of None \<Rightarrow> [] | Some c \<Rightarrow> sgr (colour_code c))
     @ (case bold of None \<Rightarrow> [] | Some b \<Rightarrow> sgr (if b then ''1'' else ''22''))
     @ text
     @ sgr ''0''"

definition print_prefix :: "host \<Rightarrow> string" where
  "print_prefix h =
     click_style [] None None @ ''['' @ click_style (name h) None (Some True) @ ''] ''"

section \<open>Host\<close>

definition check_state :: "host \<Rightarrow> exc + unit" where
  "check_state h =
     (if \<not> truthy (state h) then Inl (TypeError ''Cannot call this function with no state!'')
      else Inr ())"

text \<open>
  \<open>connect(self, for_fact=None, show_errors=True)\<close>. \<open>e.args[0]\<close> on an empty tuple
  raises \<open>IndexError\<close> inside the handler, before anything is logged. \<open>if for_fact\<close> is
  false for \<open>None\<close> and for the empty string.
\<close>

definition connect ::
  "'w connector \<Rightarrow> host \<Rightarrow> string option \<Rightarrow> bool \<Rightarrow> 'w sys \<Rightarrow> (exc + pyval) \<times> host \<times> 'w sys"
where
  "connect ex h for_fact show_errors s =
     (case check_state h of
        Inl e \<Rightarrow> (Inl e, h, s)
      | Inr _ \<Rightarrow>
          if \<not> truthy (connection h) then
            (case invoke (Connect (state h) h) (exec_connect ex (state h) h) s of
               (Inl (ConnectError args), s1) \<Rightarrow>
                 if show_errors then
                   (case args of
                      [] \<Rightarrow> (Inl (IndexError ''tuple index out of range''), h, s1)
                    | reason # _ \<Rightarrow>
                        (Inr (connection h), h,
                         emit ERROR (print_prefix h @ click_style reason (Some Red) None) s1))
                 else (Inr (connection h), h, s1)
             | (Inl e, s1) \<Rightarrow> (Inl e, h, s1)
             | (Inr c, s1) \<Rightarrow>
                 (let h1 = h\<lparr>connection := c\<rparr>;
                      log_message = print_prefix h1 @ click_style ''Connected'' (Some Green) None;
                      log_message' =
                        (case for_fact of
                           None \<Rightarrow> log_message
                         | Some k \<Rightarrow>
                             if k \<noteq> [] then log_message @ '' (for '' @ k @ '' fact)''
                             else log_message)
                  in (Inr (connection h1), h1, emit INFO log_message' s1)))
          else (Inr (connection h), h, s))"

definition disconnect ::
  "'w connector \<Rightarrow> host \<Rightarrow> 'w sys \<Rightarrow> (exc + pyval) \<times> host \<times> 'w sys"
where
  "disconnect ex h s =
     (case check_state h of
        Inl e \<Rightarrow> (Inl e, h, s)
      | Inr _ \<Rightarrow>
          (case exec_disconnect ex of
             None \<Rightarrow> (Inr PNone, h, s)
           | Some disconnect_func \<Rightarrow>
               (case invoke (Disconnect (state h) h) (disconnect_func (state h) h) s of
                  (r, s1) \<Rightarrow> (r, h, s1))))"

definition run_shell_command ::
  "'w connector \<Rightarrow> host \<Rightarrow> pyval list \<Rightarrow> (string \<times> pyval) list \<Rightarrow> 'w sys
     \<Rightarrow> (exc + pyval) \<times> host \<times> 'w sys"
where
  "run_shell_command ex h args kwargs s =
     (case check_state h of
        Inl e \<Rightarrow> (Inl e, h, s)
      | Inr _ \<Rightarrow>
          (case invoke (RunShellCommand (state h) h args kwargs)
                  (exec_run_shell_command ex (state h) h args kwargs) s of
             (r, s1) \<Rightarrow> (r, h, s1)))"

definition put_file ::
  "'w connector \<Rightarrow> host \<Rightarrow> pyval list \<Rightarrow> (string \<times> pyval) list \<Rightarrow> 'w sys
     \<Rightarrow> (exc + pyval) \<times> host \<times> 'w sys"
where
  "put_file ex h args kwargs s =
     (case check_state h of
        Inl e \<Rightarrow> (Inl e, h, s)
      | Inr _ \<Rightarrow>
          (case invoke (PutFile (state h) h args kwargs)
                  (exec_put_file ex (state h) h args kwargs) s of
             (r, s1) \<Rightarrow> (r, h, s1)))"

definition get_file ::
  "'w connector \<Rightarrow> host \<Rightarrow> pyval list \<Rightarrow> (string \<times> pyval) list \<Rightarrow> 'w sys
     \<Rightarrow> (exc + pyval) \<times> host \<times> 'w sys"
where
  "get_file ex h args kwargs s =
     (case check_state h of
        Inl e \<Rightarrow> (Inl e, h, s)
      | Inr _ \<Rightarrow>
          (case invoke (GetFile (state h) h args kwargs)
                  (exec_get_file ex (state h) h args kwargs) s of
             (r, s1) \<Rightarrow> (r, h, s1)))"

text \<open>A caller that calls \<open>connect()\<close> \<open>n\<close> times in succession, with the default arguments.\<close>

fun connect_times :: "'w connector \<Rightarrow> nat \<Rightarrow> host \<Rightarrow> 'w sys \<Rightarrow> host \<times> 'w sys" where
  "connect_times ex 0 h s = (h, s)"
| "connect_times ex (Suc n) h s =
     (case connect ex h None True s of (r, h1, s1) \<Rightarrow> connect_times ex n h1 s1)"

section \<open>HostFacts\<close>

text \<open>
  The facade holds \<open>self.host\<close>: \<open>None\<close> for the class-level placeholder \<open>HostFacts()\<close>,
  the host for \<open>HostFacts(self)\<close>. A method takes this field and returns it with the
  host as the call left it. \<open>HostFacts_getattr\<close> is the body of \<open>__getattr__\<close>, which
  Python runs for a read \<open>host.fact.<key>\<close> only when the normal attribute lookup finds
  nothing (\<open>HostFacts_read\<close> below); the host is printed by its name (\<open>__repr__\<close>).
\<close>

definition check_host :: "host option \<Rightarrow> exc + host" where
  "check_host fh =
     (case fh of
        None \<Rightarrow> Inl (TypeError ''Cannot call this function with no host!'')
      | Some h \<Rightarrow> Inr h)"

definition HostFacts_getattr ::
  "'w facts \<Rightarrow> 'w connector \<Rightarrow> host option \<Rightarrow> string \<Rightarrow> 'w sys
     \<Rightarrow> (exc + pyval) \<times> host option \<times> 'w sys"
where
  "HostFacts_getattr fm ex fh key s =
     (case check_host fh of
        Inl e \<Rightarrow> (Inl e, fh, s)
      | Inr h \<Rightarrow>
          if \<not> is_fact fm key then (Inl (AttributeError (''No such fact: '' @ key)), fh, s)
          else
            (case connect ex h (Some key) True s of
               (Inl e, h1, s1) \<Rightarrow> (Inl e, Some h1, s1)
             | (Inr c, h1, s1) \<Rightarrow>
                 if \<not> truthy c then
                   (Inl (PyinfraError
                      (''Could not connect to '' @ name h1 @ '' for fact '' @ key @ ''!'')),
                    Some h1, s1)
                 else
                   (case invoke (GetHostFact (state h1) h1 key)
                           (get_host_fact fm (state h1) h1 key) s1 of
                      (r, s2) \<Rightarrow> (r, Some h1, s2))))"

definition HostFacts_create ::
  "'w facts \<Rightarrow> host option \<Rightarrow> string \<Rightarrow> pyval \<Rightarrow> pyval \<Rightarrow> 'w sys
     \<Rightarrow> (exc + pyval) \<times> host option \<times> 'w sys"
where
  "HostFacts_create fm fh key dat args s =
     (case check_host fh of
        Inl e \<Rightarrow> (Inl e, fh, s)
      | Inr h \<Rightarrow>
          (case invoke (CreateHostFact (state h) h key dat args)
                  (create_host_fact fm (state h) h key dat args) s of
             (r, s1) \<Rightarrow> (r, fh, s1)))"

definition HostFacts_delete ::
  "'w facts \<Rightarrow> host option \<Rightarrow> string \<Rightarrow> pyval \<Rightarrow> 'w sys
     \<Rightarrow> (exc + pyval) \<times> host option \<times> 'w sys"
where
  "HostFacts_delete fm fh key args s =
     (case check_host fh of
        Inl e \<Rightarrow> (Inl e, fh, s)
      | Inr h \<Rightarrow>
          (case invoke (DeleteHostFact (state h) h key args)
                  (delete_host_fact fm (state h) h key args) s of
             (r, s1) \<Rightarrow> (r, fh, s1)))"

text \<open>
  The read \<open>host.fact.<key>\<close>. The normal lookup finds \<open>host\<close> in the instance
  (set by \<open>__init__\<close>), the methods in the class, and the names every object inherits
  (\<open>__class__\<close>, \<open>__dict__\<close>, \<open>__doc__\<close>, ...); these depend on the interpreter and are
  the parameter \<open>inherited\<close>. A name found there is returned and nothing else happens;
  any other name goes to \<open>__getattr__\<close>.
\<close>

datatype attribute =
    HostAttr "host option"
  | Method string
  | Inherited string
  | FactValue pyval

definition HostFacts_methods :: "string list" where
  "HostFacts_methods =
     [''__init__'', ''__dir__'', ''_check_host'', ''__getattr__'', ''_create'', ''_delete'']"

definition normal_lookup :: "(string \<Rightarrow> bool) \<Rightarrow> host option \<Rightarrow> string \<Rightarrow> attribute option" where
  "normal_lookup inherited fh key =
     (if key = ''host'' then Some (HostAttr fh)
      else if key \<in> set HostFacts_methods then Some (Method key)
      else if inherited key then Some (Inherited key)
      else None)"

definition HostFacts_read ::
  "(string \<Rightarrow> bool) \<Rightarrow> 'w facts \<Rightarrow> 'w connector \<Rightarrow> host option \<Rightarrow> string \<Rightarrow> 'w sys
     \<Rightarrow> (exc + attribute) \<times> host option \<times> 'w sys"
where
  "HostFacts_read inherited fm ex fh key s =
     (case normal_lookup inherited fh key of
        Some a \<Rightarrow> (Inr a, fh, s)
      | None \<Rightarrow>
          (case HostFacts_getattr fm ex fh key s of
             (Inl e, fh1, s1) \<Rightarrow> (Inl e, fh1, s1)
           | (Inr v, fh1, s1) \<Rightarrow> (Inr (FactValue v), fh1, s1)))"

section \<open>Scenario fixtures\<close>

text \<open>
  Concrete hosts, connectors and fact functions on which the theorems are instantiated.
  The world is a counter of the calls that reached a collaborator. \<open>fresh_host\<close> is a
  Host as the constructor leaves it (no run-state, no connection); \<open>web1\<close> and \<open>web2\<close>
  have their run-state assigned.
\<close>

definition fresh_host :: host where
  "fresh_host = \<lparr>name = ''web0'', inventory = PObj 0, groups = [], data = PNone,
                 connector_data = [], connection = PNone, state = PNone\<rparr>"

definition web1 :: host where
  "web1 = fresh_host\<lparr>name := ''web1'', state := PObj 1\<rparr>"

definition web2 :: host where
  "web2 = fresh_host\<lparr>name := ''web2'', state := PObj 1\<rparr>"

definition sys0 :: "nat sys" where
  "sys0 = \<lparr>logged = [], calls = [], world = 0\<rparr>"

definition always_connects :: "pyval \<Rightarrow> nat connector" where
  "always_connects c =
     \<lparr>exec_connect = (\<lambda>st h w. (Inr c, Suc w)),
      exec_disconnect = None,
      exec_run_shell_command = (\<lambda>st h args kwargs w. (Inr (PInt 0), Suc w)),
      exec_put_file = (\<lambda>st h args kwargs w. (Inr (PBool True), Suc w)),
      exec_get_file = (\<lambda>st h args kwargs w. (Inr (PBool True), Suc w))\<rparr>"

definition always_fails :: "string list \<Rightarrow> nat connector" where
  "always_fails args =
     \<lparr>exec_connect = (\<lambda>st h w. (Inl (ConnectError args), Suc w)),
      exec_disconnect = Some (\<lambda>st h w. (Inr PNone, Suc w)),
      exec_run_shell_command = (\<lambda>st h args kwargs w. (Inl (OtherError ''no session''), Suc w)),
      exec_put_file = (\<lambda>st h args kwargs w. (Inl (OtherError ''no session''), Suc w)),
      exec_get_file = (\<lambda>st h args kwargs w. (Inl (OtherError ''no session''), Suc w))\<rparr>"

definition registry :: "nat facts" where
  "registry =
     \<lparr>is_fact = (\<lambda>k. k = ''os_version''),
      get_host_fact = (\<lambda>st h k w. (Inr (PStr ''linux-6.1''), Suc w)),
      create_host_fact = (\<lambda>st h k d a w. (Inr (PBool True), Suc w)),
      delete_host_fact = (\<lambda>st h k a w. (Inr (PBool True), Suc w))\<rparr>"

definition object_attrs :: "string \<Rightarrow> bool" where
  "object_attrs key = (key \<in> set [''__class__'', ''__dict__'', ''__doc__'', ''__module__''])"

section \<open>The paths through connect\<close>

lemma check_state_bound: "truthy (state h) \<Longrightarrow> check_state h = Inr ()"
  by (simp add: check_state_def)

lemma check_state_unbound:
  "\<not> truthy (state h) \<Longrightarrow>
   check_state h = Inl (TypeError ''Cannot call this function with no state!'')"
  by (simp add: check_state_def)

lemma connect_no_state:
  "\<not> truthy (state h) \<Longrightarrow>
   connect ex h for_fact show_errors s =
     (Inl (TypeError ''Cannot call this function with no state!''), h, s)"
  by (simp add: connect_def check_state_unbound)

lemma connect_connected:
  "truthy (state h) \<Longrightarrow> truthy (connection h) \<Longrightarrow>
   connect ex h for_fact show_errors s = (Inr (connection h), h, s)"
  by (simp add: connect_def check_state_bound)

lemma connect_success:
  assumes "truthy (state h)" and "\<not> truthy (connection h)"
    and "exec_connect ex (state h) h (world s) = (Inr c, w')"
  shows "connect ex h for_fact show_errors s =
     (Inr c, h\<lparr>connection := c\<rparr>,
      s\<lparr>logged := logged s @
           [(INFO, print_prefix h @ click_style ''Connected'' (Some Green) None @
                   (case for_fact of
                      None \<Rightarrow> []
                    | Some k \<Rightarrow> if k \<noteq> [] then '' (for '' @ k @ '' fact)'' else []))],
         calls := calls s @ [Connect (state h) h], world := w'\<rparr>)"
  using assms
  by (simp add: connect_def check_state_bound invoke_def emit_def print_prefix_def Let_def
      split: option.split)

lemma connect_failure:
  assumes "truthy (state h)" and "\<not> truthy (connection h)"
    and "exec_connect ex (state h) h (world s) = (Inl (ConnectError args), w')"
  shows "connect ex h for_fact show_errors s =
     (if show_errors then
        (case args of
           [] \<Rightarrow> (Inl (IndexError ''tuple index out of range''), h,
                  s\<lparr>calls := calls s @ [Connect (state h) h], world := w'\<rparr>)
         | reason # rest \<Rightarrow>
             (Inr (connection h), h,
              s\<lparr>logged := logged s @
                   [(ERROR, print_prefix h @ click_style reason (Some Red) None)],
                calls := calls s @ [Connect (state h) h], world := w'\<rparr>))
      else (Inr (connection h), h, s\<lparr>calls := calls s @ [Connect (state h) h], world := w'\<rparr>))"
  using assms
  by (simp add: connect_def check_state_bound invoke_def emit_def split: list.split)

text \<open>The text of a log line: the reset code, the name in bold within brackets, the message.\<close>

lemma print_prefix_text:
  "print_prefix h = sgr ''0'' @ ''['' @ sgr ''1'' @ name h @ sgr ''0'' @ ''] ''"
  by (simp add: print_prefix_def click_style_def)

lemma click_style_fg_text:
  "click_style text (Some c) None = sgr (colour_code c) @ text @ sgr ''0''"
  by (simp add: click_style_def)

text \<open>With the run-state bound, the connector is called exactly when the stored handle is false.\<close>

lemma connect_calls:
  assumes "truthy (state h)"
  shows "calls (snd (snd (connect ex h for_fact show_errors s))) =
           (if truthy (connection h) then calls s else calls s @ [Connect (state h) h])"
proof (cases "truthy (connection h)")
  case True
  with assms show ?thesis by (simp add: connect_connected)
next
  case False
  obtain r w' where call: "exec_connect ex (state h) h (world s) = (r, w')"
    by (cases "exec_connect ex (state h) h (world s)")
  show ?thesis
  proof (cases r)
    case (Inr c)
    with assms False call show ?thesis by (simp add: connect_success)
  next
    case (Inl e)
    show ?thesis
    proof (cases "\<exists>args. e = ConnectError args")
      case True
      then obtain args where "e = ConnectError args" by blast
      with assms False call Inl show ?thesis
        by (simp add: connect_failure split: list.split)
    next
      case False
      with assms \<open>\<not> truthy (connection h)\<close> call Inl show ?thesis
        by (cases e) (simp_all add: connect_def check_state_bound invoke_def)
    qed
  qed
qed


text \<open>
  Successive connects. With a connector that returns a true handle, any number of calls
  makes one call on the connector and logs one line; with a connector that keeps
  returning false handles, every call reaches the connector and logs.
\<close>

lemma connect_times_connected:
  assumes "truthy (state h)" and "truthy (connection h)"
  shows "connect_times ex n h s = (h, s)"
  using assms by (induction n) (simp_all add: connect_connected)

lemma connect_times_truthy:
  assumes "truthy (state h)" and "\<not> truthy (connection h)"
    and "exec_connect ex (state h) h (world s) = (Inr c, w')" and "truthy c"
  shows "length (calls (snd (connect_times ex (Suc n) h s))) = Suc (length (calls s))
         \<and> length (logged (snd (connect_times ex (Suc n) h s))) = Suc (length (logged s))
         \<and> connection (fst (connect_times ex (Suc n) h s)) = c"
proof -
  have "truthy (state (h\<lparr>connection := c\<rparr>))" and "truthy (connection (h\<lparr>connection := c\<rparr>))"
    using assms by simp_all
  then have rest: "connect_times ex n (h\<lparr>connection := c\<rparr>) s1 = (h\<lparr>connection := c\<rparr>, s1)" for s1
    by (rule connect_times_connected)
  show ?thesis
    by (simp add: connect_success [OF assms(1-3)] rest)
qed

lemma connect_times_falsy:
  assumes falsy_handles:
      "\<And>st hh w. \<exists>c w'. exec_connect ex st hh w = (Inr c, w') \<and> \<not> truthy c"
    and "truthy (state h)" and "\<not> truthy (connection h)"
  shows "length (calls (snd (connect_times ex n h s))) = length (calls s) + n
         \<and> length (logged (snd (connect_times ex n h s))) = length (logged s) + n
         \<and> \<not> truthy (connection (fst (connect_times ex n h s)))"
  using assms(2,3)
proof (induction n arbitrary: h s)
  case 0
  then show ?case by simp
next
  case (Suc n)
  from falsy_handles obtain c w'
    where call: "exec_connect ex (state h) h (world s) = (Inr c, w')" and c: "\<not> truthy c"
    by blast
  note first = connect_success [OF Suc.prems call, of None True]
  have "truthy (state (h\<lparr>connection := c\<rparr>))" and "\<not> truthy (connection (h\<lparr>connection := c\<rparr>))"
    using Suc.prems c by simp_all
  from Suc.IH [OF this] show ?case
    by (simp add: first)
qed

section \<open>Fact reads of unknown identifiers\<close>

lemma getattr_unknown_fact:
  assumes "\<not> is_fact fm key"
  shows "HostFacts_getattr fm ex (Some h) key s =
           (Inl (AttributeError (''No such fact: '' @ key)), Some h, s)"
proof -
  have "check_host (Some h) = Inr h"
    by (simp add: check_host_def)
  with assms show ?thesis
    by (simp add: HostFacts_getattr_def)
qed

text \<open>
  C4, as the code has it. For a facade bound to a host and an identifier that \<open>is_fact\<close>
  rejects and that the normal attribute lookup does not find on the facade (it is not
  \<open>host\<close>, not a method of \<open>HostFacts\<close> and not an inherited name), the read raises
  \<open>AttributeError('No such fact: <key>')\<close> and leaves the host, the log, the record of
  calls and the world as they were: no connect attempt is made and no line is logged,
  whatever the run-state and the connection of the host are. The error is none of the
  connection failures (\<open>PyinfraError\<close> of a failed read, \<open>ConnectError\<close>).
\<close>

theorem C4_unknown_fact:
  assumes "\<not> is_fact fm key" and "normal_lookup inherited (Some h) key = None"
  shows "HostFacts_read inherited fm ex (Some h) key s =
           (Inl (AttributeError (''No such fact: '' @ key)), Some h, s)
         \<and> fst (HostFacts_read inherited fm ex (Some h) key s) \<noteq> Inl (PyinfraError msg)
         \<and> fst (HostFacts_read inherited fm ex (Some h) key s) \<noteq> Inl (ConnectError args)"
proof -
  from assms have "HostFacts_read inherited fm ex (Some h) key s =
      (Inl (AttributeError (''No such fact: '' @ key)), Some h, s)"
    by (simp add: HostFacts_read_def getattr_unknown_fact)
  then show ?thesis by simp
qed

theorem C4_unknown_fact_witness:
  "\<not> is_fact registry ''nonexistent_fact''
   \<and> normal_lookup object_attrs (Some web1) ''nonexistent_fact'' = None
   \<and> normal_lookup object_attrs (Some fresh_host) ''nonexistent_fact'' = None
   \<and> HostFacts_read object_attrs registry (always_fails [''timeout'']) (Some web1)
       ''nonexistent_fact'' sys0 =
       (Inl (AttributeError ''No such fact: nonexistent_fact''), Some web1, sys0)
   \<and> HostFacts_read object_attrs registry (always_connects (PObj 7)) (Some fresh_host)
       ''nonexistent_fact'' sys0 =
       (Inl (AttributeError ''No such fact: nonexistent_fact''), Some fresh_host, sys0)"
proof -
  have unknown: "\<not> is_fact registry ''nonexistent_fact''"
    by (simp add: registry_def)
  have fallback: "normal_lookup object_attrs (Some hh) ''nonexistent_fact'' = None" for hh
    by (simp add: normal_lookup_def HostFacts_methods_def object_attrs_def)
  show ?thesis
    using unknown fallback [of web1] fallback [of fresh_host]
      C4_unknown_fact [OF unknown fallback, where ex = "always_fails [''timeout'']"
        and h = web1 and s = sys0]
      C4_unknown_fact [OF unknown fallback, where ex = "always_connects (PObj 7)"
        and h = fresh_host and s = sys0]
    by simp
qed

text \<open>
  The claim C4 as stated fails: \<open>host\<close> and \<open>_create\<close> are not registered facts, and
  reading them on the facade returns the attribute and raises nothing.
\<close>

theorem C4_facade_attribute_counterexample:
  "\<not> is_fact registry ''host'' \<and> \<not> is_fact registry ''_create''
   \<and> HostFacts_read object_attrs registry (always_connects (PObj 7)) (Some web1) ''host'' sys0 =
       (Inr (HostAttr (Some web1)), Some web1, sys0)
   \<and> HostFacts_read object_attrs registry (always_connects (PObj 7)) (Some web1) ''_create'' sys0 =
       (Inr (Method ''_create''), Some web1, sys0)"
  by (simp add: HostFacts_read_def normal_lookup_def HostFacts_methods_def registry_def)

section \<open>Disconnect and connector dispatch\<close>

text \<open>
  C7. With the run-state bound, \<open>disconnect()\<close> calls the connector's \<open>disconnect\<close> with
  the run-state and the host exactly when the connector has one, and returns what it
  returns; when the connector has none it returns \<open>None\<close> and nothing changes. The
  connection of the host plays no part: the call is legal on a host that never connected.
\<close>

theorem C7_disconnect_delegates:
  assumes "truthy (state h)"
  shows "disconnect ex h s =
           (case exec_disconnect ex of
              None \<Rightarrow> (Inr PNone, h, s)
            | Some teardown \<Rightarrow>
                (case teardown (state h) h (world s) of
                   (r, w') \<Rightarrow>
                     (r, h, s\<lparr>calls := calls s @ [Disconnect (state h) h], world := w'\<rparr>)))"
proof (cases "exec_disconnect ex")
  case None
  with assms show ?thesis
    by (simp add: disconnect_def check_state_bound)
next
  case (Some teardown)
  obtain r w' where "teardown (state h) h (world s) = (r, w')"
    by (cases "teardown (state h) h (world s)")
  with assms Some show ?thesis
    by (simp add: disconnect_def check_state_bound invoke_def)
qed

theorem C7_disconnect_delegates_witness:
  "truthy (state web1) \<and> connection web1 = PNone
   \<and> disconnect (always_connects (PObj 7)) web1 sys0 = (Inr PNone, web1, sys0)
   \<and> disconnect (always_fails []) web1 sys0 =
       (Inr PNone, web1, sys0\<lparr>calls := [Disconnect (PObj 1) web1], world := 1\<rparr>)"
proof -
  have bound: "truthy (state web1)"
    by (simp add: web1_def fresh_host_def)
  show ?thesis
    using bound
      C7_disconnect_delegates [OF bound, of "always_connects (PObj 7)" sys0]
      C7_disconnect_delegates [OF bound, of "always_fails []" sys0]
    by (simp add: always_connects_def always_fails_def sys0_def web1_def fresh_host_def)
qed

text \<open>
  C8. With the run-state bound, \<open>run_shell_command\<close>, \<open>put_file\<close> and \<open>get_file\<close> each make
  one call on the connector operation of the same name, with the run-state, the host and
  then the caller's positional and keyword arguments as given, and return its result
  (value or exception) as it is. The host is not changed, its connection is not looked at
  and no connect is made.
\<close>

theorem C8_dispatch_verbatim:
  assumes "truthy (state h)"
  shows "run_shell_command ex h args kwargs s =
           (case exec_run_shell_command ex (state h) h args kwargs (world s) of
              (r, w') \<Rightarrow>
                (r, h, s\<lparr>calls := calls s @ [RunShellCommand (state h) h args kwargs],
                          world := w'\<rparr>))
         \<and> put_file ex h args kwargs s =
           (case exec_put_file ex (state h) h args kwargs (world s) of
              (r, w') \<Rightarrow>
                (r, h, s\<lparr>calls := calls s @ [PutFile (state h) h args kwargs], world := w'\<rparr>))
         \<and> get_file ex h args kwargs s =
           (case exec_get_file ex (state h) h args kwargs (world s) of
              (r, w') \<Rightarrow>
                (r, h, s\<lparr>calls := calls s @ [GetFile (state h) h args kwargs], world := w'\<rparr>))"
proof (intro conjI)
  show "run_shell_command ex h args kwargs s =
          (case exec_run_shell_command ex (state h) h args kwargs (world s) of
             (r, w') \<Rightarrow>
               (r, h, s\<lparr>calls := calls s @ [RunShellCommand (state h) h args kwargs],
                         world := w'\<rparr>))"
    using assms
    by (simp add: run_shell_command_def check_state_bound invoke_def split: prod.split)
  show "put_file ex h args kwargs s =
          (case exec_put_file ex (state h) h args kwargs (world s) of
             (r, w') \<Rightarrow>
               (r, h, s\<lparr>calls := calls s @ [PutFile (state h) h args kwargs], world := w'\<rparr>))"
    using assms
    by (simp add: put_file_def check_state_bound invoke_def split: prod.split)
  show "get_file ex h args kwargs s =
          (case exec_get_file ex (state h) h args kwargs (world s) of
             (r, w') \<Rightarrow>
               (r, h, s\<lparr>calls := calls s @ [GetFile (state h) h args kwargs], world := w'\<rparr>))"
    using assms
    by (simp add: get_file_def check_state_bound invoke_def split: prod.split)
qed

theorem C8_dispatch_verbatim_witness:
  "truthy (state web1)
   \<and> run_shell_command (always_connects (PObj 7)) web1 [PStr ''uname -a''] [(''sudo'', PBool True)] sys0 =
       (Inr (PInt 0), web1,
        sys0\<lparr>calls := [RunShellCommand (PObj 1) web1 [PStr ''uname -a''] [(''sudo'', PBool True)]],
              world := 1\<rparr>)
   \<and> put_file (always_fails []) web1 [PStr ''a'', PStr ''b''] [] sys0 =
       (Inl (OtherError ''no session''), web1,
        sys0\<lparr>calls := [PutFile (PObj 1) web1 [PStr ''a'', PStr ''b''] []], world := 1\<rparr>)
   \<and> get_file (always_connects (PObj 7)) web1 [PStr ''b'', PStr ''a''] [] sys0 =
       (Inr (PBool True), web1,
        sys0\<lparr>calls := [GetFile (PObj 1) web1 [PStr ''b'', PStr ''a''] []], world := 1\<rparr>)"
proof -
  have bound: "truthy (state web1)"
    by (simp add: web1_def fresh_host_def)
  show ?thesis
    using bound
      C8_dispatch_verbatim [OF bound, of "always_connects (PObj 7)" "[PStr ''uname -a'']"
        "[(''sudo'', PBool True)]" sys0]
      C8_dispatch_verbatim [OF bound, of "always_fails []" "[PStr ''a'', PStr ''b'']" "[]" sys0]
      C8_dispatch_verbatim [OF bound, of "always_connects (PObj 7)" "[PStr ''b'', PStr ''a'']" "[]" sys0]
    by (simp add: always_connects_def always_fails_def sys0_def web1_def fresh_host_def)
qed

section \<open>Connect: failures of the connector\<close>

text \<open>
  C9. With the run-state bound and no live handle stored, a \<open>ConnectError\<close> with an empty
  argument tuple makes \<open>connect\<close> with error reporting enabled raise \<open>IndexError\<close> (from
  \<open>e.args[0]\<close>) after the connector was called and before anything is logged. With error
  reporting enabled, \<open>connect\<close> raises on a \<open>ConnectError\<close> exactly when its argument
  tuple is empty; with error reporting disabled it does not raise.
\<close>

theorem C9_empty_args_raise:
  assumes "truthy (state h)" and "\<not> truthy (connection h)"
    and "exec_connect ex (state h) h (world s) = (Inl (ConnectError args), w')"
  shows "(args = [] \<longrightarrow>
            connect ex h for_fact True s =
              (Inl (IndexError ''tuple index out of range''), h,
               s\<lparr>calls := calls s @ [Connect (state h) h], world := w'\<rparr>))
         \<and> (isl (fst (connect ex h for_fact True s)) = (args = []))
         \<and> \<not> isl (fst (connect ex h for_fact False s))"
proof -
  note path = connect_failure [OF assms]
  show ?thesis
  proof (cases args)
    case Nil
    then show ?thesis by (simp add: path)
  next
    case (Cons reason rest)
    then show ?thesis by (simp add: path)
  qed
qed

theorem C9_empty_args_raise_witness:
  "truthy (state web1) \<and> \<not> truthy (connection web1)
   \<and> exec_connect (always_fails []) (state web1) web1 (world sys0) = (Inl (ConnectError []), 1)
   \<and> connect (always_fails []) web1 None True sys0 =
       (Inl (IndexError ''tuple index out of range''), web1,
        sys0\<lparr>calls := [Connect (PObj 1) web1], world := 1\<rparr>)
   \<and> \<not> isl (fst (connect (always_fails []) web1 None False sys0))"
proof -
  have bound: "truthy (state web1)" and fresh: "\<not> truthy (connection web1)"
    by (simp_all add: web1_def fresh_host_def)
  have fails: "exec_connect (always_fails []) (state web1) web1 (world sys0) =
      (Inl (ConnectError []), 1)"
    by (simp add: always_fails_def sys0_def)
  show ?thesis
    using bound fresh fails C9_empty_args_raise [OF bound fresh fails, of None]
    by (simp add: sys0_def web1_def fresh_host_def)
qed

text \<open>
  What connect does on a \<open>ConnectError\<close>, with the run-state bound and no live handle
  stored. With error reporting disabled it returns the stored handle (\<open>None\<close> when none
  was ever stored), logs nothing and leaves the host as it was. With error reporting
  enabled and an error that carries its reason as first argument, it returns the stored
  handle and logs one error line: the prefix of the host, then the reason in red.
\<close>

lemma connect_failure_reported:
  assumes "truthy (state h)" and "\<not> truthy (connection h)"
    and "exec_connect ex (state h) h (world s) = (Inl (ConnectError args), w')"
  shows "connect ex h for_fact False s =
           (Inr (connection h), h, s\<lparr>calls := calls s @ [Connect (state h) h], world := w'\<rparr>)
         \<and> (args = reason # rest \<longrightarrow>
              connect ex h for_fact True s =
                (Inr (connection h), h,
                 s\<lparr>logged := logged s @
                      [(ERROR, print_prefix h @ sgr ''31'' @ reason @ sgr ''0'')],
                   calls := calls s @ [Connect (state h) h], world := w'\<rparr>))"
proof -
  note path = connect_failure [OF assms]
  have silent: "connect ex h for_fact False s =
      (Inr (connection h), h, s\<lparr>calls := calls s @ [Connect (state h) h], world := w'\<rparr>)"
    by (simp add: path)
  have reported: "connect ex h for_fact True s =
      (Inr (connection h), h,
       s\<lparr>logged := logged s @ [(ERROR, print_prefix h @ sgr ''31'' @ reason @ sgr ''0'')],
         calls := calls s @ [Connect (state h) h], world := w'\<rparr>)"
    if "args = reason # rest"
    using that by (simp add: path click_style_def)
  from silent reported show ?thesis by blast
qed

text \<open>Host web2 whose connector fails with the reason \<open>timeout\<close>.\<close>

lemma connect_failure_reported_web2:
  "connect (always_fails [''timeout'']) web2 None False sys0 =
     (Inr PNone, web2, sys0\<lparr>calls := [Connect (PObj 1) web2], world := 1\<rparr>)
   \<and> connect (always_fails [''timeout'']) web2 None True sys0 =
       (Inr PNone, web2,
        sys0\<lparr>logged := [(ERROR, sgr ''0'' @ ''['' @ sgr ''1'' @ ''web2'' @ sgr ''0'' @ ''] ''
                                  @ sgr ''31'' @ ''timeout'' @ sgr ''0'')],
              calls := [Connect (PObj 1) web2], world := 1\<rparr>)"
proof -
  have bound: "truthy (state web2)" and fresh: "\<not> truthy (connection web2)"
    and none: "connection web2 = PNone"
    by (simp_all add: web2_def fresh_host_def)
  have fails: "exec_connect (always_fails [''timeout'']) (state web2) web2 (world sys0) =
      (Inl (ConnectError [''timeout'']), 1)"
    by (simp add: always_fails_def sys0_def)
  have prefix: "print_prefix web2 = sgr ''0'' @ ''['' @ sgr ''1'' @ ''web2'' @ sgr ''0'' @ ''] ''"
    by (simp add: print_prefix_text web2_def fresh_host_def)
  show ?thesis
    using connect_failure_reported [OF bound fresh fails, of None "''timeout''" "[]"]
    by (simp add: prefix none sys0_def) (simp add: web2_def fresh_host_def)
qed

text \<open>
  C3. The claim: with the run-state bound and no connection, when the connector's connect
  raises a \<open>ConnectError\<close>, \<open>connect\<close> does not raise and returns \<open>None\<close>, logging one
  host-prefixed line with the reason when error reporting is enabled and nothing when it
  is disabled. The code departs from it at one input: on Host web2 (run-state bound,
  connection \<open>None\<close>) with a connector that raises \<open>ConnectError()\<close> without arguments,
  \<open>connect\<close> with error reporting enabled raises \<open>IndexError\<close> and logs nothing, while with
  error reporting disabled it returns \<open>None\<close> on the same error.
\<close>

theorem C3_empty_args_failing_input:
  "truthy (state web2) \<and> connection web2 = PNone
   \<and> exec_connect (always_fails []) (state web2) web2 (world sys0) = (Inl (ConnectError []), 1)
   \<and> connect (always_fails []) web2 None True sys0 =
       (Inl (IndexError ''tuple index out of range''), web2,
        sys0\<lparr>calls := [Connect (PObj 1) web2], world := 1\<rparr>)
   \<and> connect (always_fails []) web2 None False sys0 =
       (Inr PNone, web2, sys0\<lparr>calls := [Connect (PObj 1) web2], world := 1\<rparr>)"
  by (simp add: connect_def check_state_def invoke_def always_fails_def sys0_def web2_def
      fresh_host_def)

section \<open>Connect: the stored handle\<close>

text \<open>
  C2. A Host that has connected successfully has its run-state bound and stores a handle
  that \<open>if not self.connection\<close> takes for present. On such a Host \<open>connect\<close> returns the
  stored handle and changes nothing: no call on the connector, no log line. In particular,
  from a Host without handle whose connector returns the handle \<open>c\<close>, two successive
  calls of \<open>connect\<close> both return \<open>c\<close>, and together they make one call on the connector
  and log one line, the success line of the first call.
\<close>

theorem C2_connect_idempotent:
  assumes "truthy (state h)"
  shows "(truthy (connection h) \<longrightarrow>
            connect ex h for_fact show_errors s = (Inr (connection h), h, s))
         \<and> (\<not> truthy (connection h) \<and> truthy c
              \<and> exec_connect ex (state h) h (world s) = (Inr c, w') \<longrightarrow>
              (case connect ex h for_fact show_errors s of
                 (r1, h1, s1) \<Rightarrow>
                   (case connect ex h1 again_for again_errors s1 of
                      (r2, h2, s2) \<Rightarrow>
                        r1 = Inr c \<and> r2 = Inr c \<and> h2 = h1 \<and> s2 = s1
                        \<and> calls s2 = calls s @ [Connect (state h) h]
                        \<and> logged s2 = logged s @
                            [(INFO, print_prefix h @ click_style ''Connected'' (Some Green) None @
                                (case for_fact of
                                   None \<Rightarrow> []
                                 | Some k \<Rightarrow>
                                     if k \<noteq> [] then '' (for '' @ k @ '' fact)'' else []))])))"
proof (intro conjI impI)
  assume "truthy (connection h)"
  with assms show "connect ex h for_fact show_errors s = (Inr (connection h), h, s)"
    by (rule connect_connected)
next
  assume fresh: "\<not> truthy (connection h) \<and> truthy c
      \<and> exec_connect ex (state h) h (world s) = (Inr c, w')"
  then have first: "connect ex h for_fact show_errors s =
      (Inr c, h\<lparr>connection := c\<rparr>,
       s\<lparr>logged := logged s @
            [(INFO, print_prefix h @ click_style ''Connected'' (Some Green) None @
                (case for_fact of
                   None \<Rightarrow> []
                 | Some k \<Rightarrow> if k \<noteq> [] then '' (for '' @ k @ '' fact)'' else []))],
          calls := calls s @ [Connect (state h) h], world := w'\<rparr>)"
    using assms by (simp add: connect_success)
  from assms fresh have second: "connect ex (h\<lparr>connection := c\<rparr>) again_for again_errors s1 =
      (Inr c, h\<lparr>connection := c\<rparr>, s1)" for s1
    by (simp add: connect_connected)
  show "case connect ex h for_fact show_errors s of
          (r1, h1, s1) \<Rightarrow>
            (case connect ex h1 again_for again_errors s1 of
               (r2, h2, s2) \<Rightarrow>
                 r1 = Inr c \<and> r2 = Inr c \<and> h2 = h1 \<and> s2 = s1
                 \<and> calls s2 = calls s @ [Connect (state h) h]
                 \<and> logged s2 = logged s @
                     [(INFO, print_prefix h @ click_style ''Connected'' (Some Green) None @
                         (case for_fact of
                            None \<Rightarrow> []
                          | Some k \<Rightarrow>
                              if k \<noteq> [] then '' (for '' @ k @ '' fact)'' else []))])"
    by (simp add: first second)
qed

theorem C2_connect_idempotent_witness:
  "truthy (state web1) \<and> truthy (connection (web1\<lparr>connection := PObj 7\<rparr>))
   \<and> connect (always_fails []) (web1\<lparr>connection := PObj 7\<rparr>) None True sys0 =
       (Inr (PObj 7), web1\<lparr>connection := PObj 7\<rparr>, sys0)
   \<and> \<not> truthy (connection web1) \<and> truthy (PObj 7)
   \<and> exec_connect (always_connects (PObj 7)) (state web1) web1 (world sys0) = (Inr (PObj 7), 1)
   \<and> (case connect (always_connects (PObj 7)) web1 None True sys0 of
         (r1, h1, s1) \<Rightarrow>
           (case connect (always_connects (PObj 7)) h1 None True s1 of
              (r2, h2, s2) \<Rightarrow>
                r1 = Inr (PObj 7) \<and> r2 = Inr (PObj 7)
                \<and> calls s2 = [Connect (PObj 1) web1]
                \<and> logged s2 =
                    [(INFO, sgr ''0'' @ ''['' @ sgr ''1'' @ ''web1'' @ sgr ''0'' @ ''] ''
                            @ sgr ''32'' @ ''Connected'' @ sgr ''0'')]))"
proof -
  have bound: "truthy (state web1)" and bound': "truthy (state (web1\<lparr>connection := PObj 7\<rparr>))"
    and fresh: "\<not> truthy (connection web1)"
    by (simp_all add: web1_def fresh_host_def)
  have connects: "exec_connect (always_connects (PObj 7)) (state web1) web1 (world sys0) =
      (Inr (PObj 7), 1)"
    by (simp add: always_connects_def sys0_def)
  have prefix: "print_prefix web1 = sgr ''0'' @ ''['' @ sgr ''1'' @ ''web1'' @ sgr ''0'' @ ''] ''"
    by (simp add: print_prefix_text web1_def fresh_host_def)
  have line: "click_style ''Connected'' (Some Green) None = sgr ''32'' @ ''Connected'' @ sgr ''0''"
    by (simp add: click_style_def)
  have st: "state web1 = PObj 1"
    by (simp add: web1_def fresh_host_def)
  show ?thesis
    using bound fresh connects
      C2_connect_idempotent [OF bound', where ex = "always_fails []" and for_fact = None
        and show_errors = True and s = sys0]
      C2_connect_idempotent [OF bound, where ex = "always_connects (PObj 7)" and c = "PObj 7"
        and s = sys0 and w' = 1 and for_fact = None and show_errors = True
        and again_for = None and again_errors = True]
    by (simp add: prefix line st sys0_def split: prod.splits)
qed

text \<open>
  C10. With the run-state bound, \<open>connect\<close> calls the connector exactly when the stored
  handle is false. A true handle is returned as it is, with no call. When the connector
  returns a handle without raising, \<open>connect\<close> stores it, logs the success line and
  returns it, also when the handle is false (\<open>None\<close>, \<open>0\<close>, \<open>''\<close>, \<open>False\<close>); the Host
  then still has no true handle, so that the next \<open>connect\<close> calls the connector and logs
  again: with a connector that keeps returning false handles, \<open>n\<close> successive calls of
  \<open>connect\<close> make \<open>n\<close> calls on the connector and log \<open>n\<close> lines.
\<close>

theorem C10_connect_on_falsy_handle:
  assumes "truthy (state h)"
  shows "calls (snd (snd (connect ex h for_fact show_errors s))) =
           (if truthy (connection h) then calls s else calls s @ [Connect (state h) h])
         \<and> (truthy (connection h) \<longrightarrow>
              connect ex h for_fact show_errors s = (Inr (connection h), h, s))
         \<and> (\<not> truthy (connection h) \<and> exec_connect ex (state h) h (world s) = (Inr c, w') \<longrightarrow>
              connect ex h for_fact show_errors s =
                (Inr c, h\<lparr>connection := c\<rparr>,
                 s\<lparr>logged := logged s @
                      [(INFO, print_prefix h @ click_style ''Connected'' (Some Green) None @
                          (case for_fact of
                             None \<Rightarrow> []
                           | Some k \<Rightarrow>
                               if k \<noteq> [] then '' (for '' @ k @ '' fact)'' else []))],
                    calls := calls s @ [Connect (state h) h], world := w'\<rparr>))
         \<and> (\<not> truthy (connection h) \<and> exec_connect ex (state h) h (world s) = (Inr c, w')
              \<and> \<not> truthy c
              \<and> exec_connect ex (state h) (h\<lparr>connection := c\<rparr>) w' = (Inr d, v) \<longrightarrow>
              (case connect ex h for_fact show_errors s of
                 (r1, h1, s1) \<Rightarrow>
                   (case connect ex h1 again_for again_errors s1 of
                      (r2, h2, s2) \<Rightarrow>
                        r1 = Inr c \<and> r2 = Inr d
                        \<and> calls s2 = calls s @
                            [Connect (state h) h, Connect (state h) (h\<lparr>connection := c\<rparr>)]
                        \<and> map fst (logged s2) = map fst (logged s) @ [INFO, INFO]
                        \<and> world s2 = v)))
         \<and> (\<not> truthy (connection h)
              \<and> (\<forall>st hh w. \<exists>c w'. exec_connect ex st hh w = (Inr c, w') \<and> \<not> truthy c) \<longrightarrow>
              length (calls (snd (connect_times ex n h s))) = length (calls s) + n
              \<and> length (logged (snd (connect_times ex n h s))) = length (logged s) + n)"
proof (intro conjI impI)
  show "calls (snd (snd (connect ex h for_fact show_errors s))) =
          (if truthy (connection h) then calls s else calls s @ [Connect (state h) h])"
    using assms by (rule connect_calls)
next
  assume "truthy (connection h)"
  with assms show "connect ex h for_fact show_errors s = (Inr (connection h), h, s)"
    by (rule connect_connected)
next
  assume "\<not> truthy (connection h) \<and> exec_connect ex (state h) h (world s) = (Inr c, w')"
  with assms show "connect ex h for_fact show_errors s =
      (Inr c, h\<lparr>connection := c\<rparr>,
       s\<lparr>logged := logged s @
            [(INFO, print_prefix h @ click_style ''Connected'' (Some Green) None @
                (case for_fact of
                   None \<Rightarrow> []
                 | Some k \<Rightarrow> if k \<noteq> [] then '' (for '' @ k @ '' fact)'' else []))],
          calls := calls s @ [Connect (state h) h], world := w'\<rparr>)"
    by (simp add: connect_success)
next
  assume again: "\<not> truthy (connection h) \<and> exec_connect ex (state h) h (world s) = (Inr c, w')
      \<and> \<not> truthy c \<and> exec_connect ex (state h) (h\<lparr>connection := c\<rparr>) w' = (Inr d, v)"
  define s1 where "s1 = s\<lparr>logged := logged s @
      [(INFO, print_prefix h @ click_style ''Connected'' (Some Green) None @
          (case for_fact of
             None \<Rightarrow> []
           | Some k \<Rightarrow> if k \<noteq> [] then '' (for '' @ k @ '' fact)'' else []))],
      calls := calls s @ [Connect (state h) h], world := w'\<rparr>"
  from assms again have first: "connect ex h for_fact show_errors s =
      (Inr c, h\<lparr>connection := c\<rparr>, s1)"
    by (simp add: connect_success s1_def)
  have "truthy (state (h\<lparr>connection := c\<rparr>))" and "\<not> truthy (connection (h\<lparr>connection := c\<rparr>))"
    and "exec_connect ex (state (h\<lparr>connection := c\<rparr>)) (h\<lparr>connection := c\<rparr>) (world s1) =
      (Inr d, v)"
    using assms again by (simp_all add: s1_def)
  from connect_success [OF this, of again_for again_errors]
  have second: "connect ex (h\<lparr>connection := c\<rparr>) again_for again_errors s1 =
      (Inr d, h\<lparr>connection := d\<rparr>,
       s1\<lparr>logged := logged s1 @
            [(INFO, print_prefix (h\<lparr>connection := c\<rparr>) @
                click_style ''Connected'' (Some Green) None @
                (case again_for of
                   None \<Rightarrow> []
                 | Some k \<Rightarrow> if k \<noteq> [] then '' (for '' @ k @ '' fact)'' else []))],
          calls := calls s1 @ [Connect (state h) (h\<lparr>connection := c\<rparr>)], world := v\<rparr>)"
    by simp
  show "case connect ex h for_fact show_errors s of
          (r1, h1, s1) \<Rightarrow>
            (case connect ex h1 again_for again_errors s1 of
               (r2, h2, s2) \<Rightarrow>
                 r1 = Inr c \<and> r2 = Inr d
                 \<and> calls s2 = calls s @
                     [Connect (state h) h, Connect (state h) (h\<lparr>connection := c\<rparr>)]
                 \<and> map fst (logged s2) = map fst (logged s) @ [INFO, INFO]
                 \<and> world s2 = v)"
    by (simp add: first second) (simp add: s1_def)
next
  assume always: "\<not> truthy (connection h)
      \<and> (\<forall>st hh w. \<exists>c w'. exec_connect ex st hh w = (Inr c, w') \<and> \<not> truthy c)"
  then have "\<exists>c w'. exec_connect ex st hh w = (Inr c, w') \<and> \<not> truthy c" for st hh w
    by blast
  from connect_times_falsy [OF this assms, of n s] always
  show "length (calls (snd (connect_times ex n h s))) = length (calls s) + n"
    and "length (logged (snd (connect_times ex n h s))) = length (logged s) + n"
    by simp_all
qed

theorem C10_connect_on_falsy_handle_witness:
  "truthy (state web1) \<and> \<not> truthy (connection web1) \<and> \<not> truthy PNone
   \<and> truthy (connection (web1\<lparr>connection := PObj 7\<rparr>))
   \<and> connect (always_connects PNone) (web1\<lparr>connection := PObj 7\<rparr>) None True sys0 =
       (Inr (PObj 7), web1\<lparr>connection := PObj 7\<rparr>, sys0)
   \<and> exec_connect (always_connects PNone) (state web1) web1 (world sys0) = (Inr PNone, 1)
   \<and> exec_connect (always_connects PNone) (state web1) (web1\<lparr>connection := PNone\<rparr>) 1 =
       (Inr PNone, 2)
   \<and> (case connect (always_connects PNone) web1 None True sys0 of
         (r1, h1, s1) \<Rightarrow>
           (case connect (always_connects PNone) h1 None True s1 of
              (r2, h2, s2) \<Rightarrow>
                r1 = Inr PNone \<and> r2 = Inr PNone
                \<and> calls s2 = [Connect (PObj 1) web1, Connect (PObj 1) web1]
                \<and> map fst (logged s2) = [INFO, INFO] \<and> world s2 = 2))
   \<and> (\<forall>st hh w. \<exists>c w'. exec_connect (always_connects PNone) st hh w = (Inr c, w')
         \<and> \<not> truthy c)
   \<and> length (calls (snd (connect_times (always_connects PNone) 3 web1 sys0))) = 3
   \<and> length (logged (snd (connect_times (always_connects PNone) 3 web1 sys0))) = 3"
proof -
  have always: "\<forall>st hh w. \<exists>c w'. exec_connect (always_connects PNone) st hh w = (Inr c, w')
      \<and> \<not> truthy c"
    by (simp add: always_connects_def)
  have bound: "truthy (state web1)" and bound': "truthy (state (web1\<lparr>connection := PObj 7\<rparr>))"
    and fresh: "\<not> truthy (connection web1)"
    by (simp_all add: web1_def fresh_host_def)
  have connects: "exec_connect (always_connects PNone) (state web1) web1 (world sys0) =
      (Inr PNone, 1)"
    and connects': "exec_connect (always_connects PNone) (state web1)
      (web1\<lparr>connection := PNone\<rparr>) 1 = (Inr PNone, 2)"
    by (simp_all add: always_connects_def sys0_def)
  have st: "state web1 = PObj 1" and same: "web1\<lparr>connection := PNone\<rparr> = web1"
    by (simp_all add: web1_def fresh_host_def)
  show ?thesis
    using bound fresh connects connects'
      C10_connect_on_falsy_handle [OF bound', where ex = "always_connects PNone"
        and for_fact = None and show_errors = True and s = sys0]
      C10_connect_on_falsy_handle [OF bound, where ex = "always_connects PNone" and c = PNone
        and s = sys0 and w' = 1 and d = PNone and v = 2 and for_fact = None
        and show_errors = True and again_for = None and again_errors = True and n = 3]
      always
    by (simp add: st same sys0_def split: prod.splits)
qed

section \<open>The connection attribute\<close>




section \<open>Fact reads of registered identifiers\<close>



section \<open>Without run-state\<close>

text \<open>
  C1, as the code has it. On a Host without run-state, \<open>connect\<close>, \<open>disconnect\<close>,
  \<open>run_shell_command\<close>, \<open>put_file\<close>, \<open>get_file\<close> and the read of a registered fact raise
  \<open>TypeError('Cannot call this function with no state!')\<close> and change nothing: the host,
  the log, the record of calls and the world are as before (before raising, the read has
  tested the identifier with \<open>is_fact\<close>). This holds for the reads that reach
  \<open>__getattr__\<close>, those of an identifier that the normal attribute lookup does not find
  on the facade; among these, the read of an identifier that is not registered raises
  the \<open>AttributeError\<close> of C4 instead, and changes nothing.
  \<open>_create\<close> and \<open>_delete\<close> check that the facade has a host and nothing else: they call
  \<open>create_host_fact\<close> and \<open>delete_host_fact\<close> with the run-state as it is, and return
  their result.
\<close>

theorem C1_no_state_rejected:
  assumes "\<not> truthy (state h)"
  shows "connect ex h for_fact show_errors s =
           (Inl (TypeError ''Cannot call this function with no state!''), h, s)
         \<and> disconnect ex h s =
           (Inl (TypeError ''Cannot call this function with no state!''), h, s)
         \<and> run_shell_command ex h args kwargs s =
           (Inl (TypeError ''Cannot call this function with no state!''), h, s)
         \<and> put_file ex h args kwargs s =
           (Inl (TypeError ''Cannot call this function with no state!''), h, s)
         \<and> get_file ex h args kwargs s =
           (Inl (TypeError ''Cannot call this function with no state!''), h, s)
         \<and> (normal_lookup inherited (Some h) key = None \<longrightarrow>
              HostFacts_read inherited fm ex (Some h) key s =
                (Inl (if is_fact fm key then TypeError ''Cannot call this function with no state!''
                      else AttributeError (''No such fact: '' @ key)),
                 Some h, s))
         \<and> HostFacts_create fm (Some h) key dat fargs s =
           (case create_host_fact fm (state h) h key dat fargs (world s) of
              (r, w') \<Rightarrow>
                (r, Some h,
                 s\<lparr>calls := calls s @ [CreateHostFact (state h) h key dat fargs], world := w'\<rparr>))
         \<and> HostFacts_delete fm (Some h) key fargs s =
           (case delete_host_fact fm (state h) h key fargs (world s) of
              (r, w') \<Rightarrow>
                (r, Some h,
                 s\<lparr>calls := calls s @ [DeleteHostFact (state h) h key fargs], world := w'\<rparr>))"
proof (intro conjI)
  note unbound = check_state_unbound [OF assms]
  have facade: "check_host (Some h) = Inr h"
    by (simp add: check_host_def)
  show "connect ex h for_fact show_errors s =
      (Inl (TypeError ''Cannot call this function with no state!''), h, s)"
    using assms by (rule connect_no_state)
  show "disconnect ex h s = (Inl (TypeError ''Cannot call this function with no state!''), h, s)"
    by (simp add: disconnect_def unbound)
  show "run_shell_command ex h args kwargs s =
      (Inl (TypeError ''Cannot call this function with no state!''), h, s)"
    by (simp add: run_shell_command_def unbound)
  show "put_file ex h args kwargs s =
      (Inl (TypeError ''Cannot call this function with no state!''), h, s)"
    by (simp add: put_file_def unbound)
  show "get_file ex h args kwargs s =
      (Inl (TypeError ''Cannot call this function with no state!''), h, s)"
    by (simp add: get_file_def unbound)
  have "HostFacts_getattr fm ex (Some h) key s =
      (Inl (if is_fact fm key then TypeError ''Cannot call this function with no state!''
            else AttributeError (''No such fact: '' @ key)),
       Some h, s)"
    by (simp add: HostFacts_getattr_def facade connect_no_state [OF assms])
  then show "normal_lookup inherited (Some h) key = None \<longrightarrow>
      HostFacts_read inherited fm ex (Some h) key s =
        (Inl (if is_fact fm key then TypeError ''Cannot call this function with no state!''
              else AttributeError (''No such fact: '' @ key)),
         Some h, s)"
    by (simp add: HostFacts_read_def)
  show "HostFacts_create fm (Some h) key dat fargs s =
      (case create_host_fact fm (state h) h key dat fargs (world s) of
         (r, w') \<Rightarrow>
           (r, Some h,
            s\<lparr>calls := calls s @ [CreateHostFact (state h) h key dat fargs], world := w'\<rparr>))"
    by (simp add: HostFacts_create_def facade invoke_def split: prod.split)
  show "HostFacts_delete fm (Some h) key fargs s =
      (case delete_host_fact fm (state h) h key fargs (world s) of
         (r, w') \<Rightarrow>
           (r, Some h,
            s\<lparr>calls := calls s @ [DeleteHostFact (state h) h key fargs], world := w'\<rparr>))"
    by (simp add: HostFacts_delete_def facade invoke_def split: prod.split)
qed

theorem C1_no_state_rejected_witness:
  "\<not> truthy (state fresh_host)
   \<and> connect (always_connects (PObj 7)) fresh_host None True sys0 =
       (Inl (TypeError ''Cannot call this function with no state!''), fresh_host, sys0)
   \<and> disconnect (always_fails []) fresh_host sys0 =
       (Inl (TypeError ''Cannot call this function with no state!''), fresh_host, sys0)
   \<and> run_shell_command (always_connects (PObj 7)) fresh_host [PStr ''uname -a''] [] sys0 =
       (Inl (TypeError ''Cannot call this function with no state!''), fresh_host, sys0)
   \<and> normal_lookup object_attrs (Some fresh_host) ''os_version'' = None
   \<and> HostFacts_read object_attrs registry (always_connects (PObj 7)) (Some fresh_host)
       ''os_version'' sys0 =
       (Inl (TypeError ''Cannot call this function with no state!''), Some fresh_host, sys0)
   \<and> HostFacts_delete registry (Some fresh_host) ''directory'' PNone sys0 =
       (Inr (PBool True), Some fresh_host,
        sys0\<lparr>calls := [DeleteHostFact PNone fresh_host ''directory'' PNone], world := 1\<rparr>)"
proof -
  have unbound: "\<not> truthy (state fresh_host)"
    by (simp add: fresh_host_def)
  have st: "state fresh_host = PNone"
    by (simp add: fresh_host_def)
  have fallback: "normal_lookup object_attrs (Some fresh_host) ''os_version'' = None"
    by (simp add: normal_lookup_def HostFacts_methods_def object_attrs_def)
  show ?thesis
    using unbound fallback
      C1_no_state_rejected [OF unbound, where ex = "always_connects (PObj 7)" and fm = registry
        and for_fact = None and show_errors = True and s = sys0 and args = "[PStr ''uname -a'']"
        and kwargs = "[]" and key = "''os_version''" and inherited = object_attrs]
      C1_no_state_rejected [OF unbound, where ex = "always_fails []" and fm = registry
        and s = sys0 and key = "''directory''" and fargs = PNone]
    by (simp add: st registry_def sys0_def)
qed

text \<open>
  The claim C1 as stated fails: on a Host without run-state, the read of an identifier
  that is not registered raises \<open>AttributeError\<close>, and \<open>_create\<close> hands the call on.
\<close>

theorem C1_no_state_counterexample:
  "\<not> truthy (state fresh_host)
   \<and> HostFacts_getattr registry (always_connects (PObj 7)) (Some fresh_host)
       ''nonexistent_fact'' sys0 =
       (Inl (AttributeError ''No such fact: nonexistent_fact''), Some fresh_host, sys0)
   \<and> HostFacts_create registry (Some fresh_host) ''directory'' PNone PNone sys0 =
       (Inr (PBool True), Some fresh_host,
        sys0\<lparr>calls := [CreateHostFact PNone fresh_host ''directory'' PNone PNone],
              world := 1\<rparr>)"
  by (simp add: HostFacts_getattr_def HostFacts_create_def check_host_def invoke_def
      registry_def sys0_def fresh_host_def)

end
